theory Spec2Isabelle
  imports Complex_Main
begin

section \<open>Conventions of the embedding\<close>

text \<open>
  The two source files are \<^verbatim>\<open>envs/JSBSim/reward_functions/posture_reward.py\<close> and
  \<^verbatim>\<open>envs/JSBSim/tasks/singlecombat_task.py\<close>. Python floats and numpy \<^verbatim>\<open>float64\<close>
  values are read as real numbers: rounding, overflow, infinities and NaN are outside this
  model. In particular \<^verbatim>\<open>np.arctanh\<close> is the real \<^const>\<open>artanh\<close>, which agrees with
  numpy strictly inside \<open>(-1, 1)\<close>; at the argument \<open>-1\<close> numpy returns \<^verbatim>\<open>-inf\<close> where
  \<^const>\<open>artanh\<close> is some real number. Discrete action indices are unbounded integers,
  agent indices are natural numbers, version tags are strings.

  Every exception the sources can raise is a value of \<open>py_error\<close>, and a function that can
  raise returns \<open>py_error + 'a\<close>.
\<close>

datatype py_error =
    NotImplementedError string
  | AssertionError string
  | IndexError

text \<open>\<^verbatim>\<open>getattr(config, name, default)\<close>: an attribute the configuration lacks is \<open>None\<close>.\<close>

definition getattr_default :: "'a option \<Rightarrow> 'a \<Rightarrow> 'a" where
  "getattr_default attr dflt = (case attr of None \<Rightarrow> dflt | Some v \<Rightarrow> v)"

text \<open>\<^verbatim>\<open>np.clip(x, lo, hi)\<close>, which numpy computes as \<^verbatim>\<open>minimum(maximum(x, lo), hi)\<close>.\<close>

definition np_clip :: "real \<Rightarrow> real \<Rightarrow> real \<Rightarrow> real" where
  "np_clip x lo hi = min (max x lo) hi"

text \<open>\<^verbatim>\<open>np.sign\<close> on a float: \<open>-1\<close>, \<open>0\<close> or \<open>1\<close>.\<close>

definition np_sign :: "real \<Rightarrow> real" where
  "np_sign x = (if x < 0 then - 1 else if x = 0 then 0 else 1)"

text \<open>\<^verbatim>\<open>np.linalg.norm\<close> of a one-dimensional array: the Euclidean norm.\<close>

definition linalg_norm :: "real list \<Rightarrow> real" where
  "linalg_norm xs = sqrt (sum_list (map (\<lambda>x. x * x) xs))"

text \<open>
  Reading position \<open>i\<close> of a sequence with a non-negative index; Python raises
  \<^verbatim>\<open>IndexError\<close> past the end.
\<close>

definition py_index :: "'a list \<Rightarrow> nat \<Rightarrow> py_error + 'a" where
  "py_index xs i = (if i < length xs then Inr (xs ! i) else Inl IndexError)"

text \<open>
  The loop \<^verbatim>\<open>for agent_id in range(n): out[agent_id] = f(agent_id)\<close>: the rows are
  computed in order and the first exception ends the loop.
\<close>

fun for_agents :: "(nat \<Rightarrow> py_error + 'a) \<Rightarrow> nat list \<Rightarrow> py_error + 'a list" where
  "for_agents f [] = Inr []"
| "for_agents f (i # rest) =
     (case f i of
        Inl e \<Rightarrow> Inl e
      | Inr row \<Rightarrow> (case for_agents f rest of Inl e \<Rightarrow> Inl e | Inr rows \<Rightarrow> Inr (row # rows)))"

section \<open>PostureReward\<close>

subsection \<open>The versioned shaping functions\<close>

text \<open>
  The three lambdas of \<^verbatim>\<open>get_orientation_function\<close>, over \<open>(AO, TA)\<close>, named after
  their version tags. The floor \<^verbatim>\<open>1e-4\<close> is the rational \<open>1 / 10000\<close>, \<^verbatim>\<open>0.5\<close> is
  \<open>1 / 2\<close>; Python's \<^verbatim>\<open>max(a, b)\<close> and \<^verbatim>\<open>min(a, b)\<close> are the larger and the smaller
  of two reals.
\<close>

definition orientation_fn_v0 :: "real \<Rightarrow> real \<Rightarrow> real" where
  "orientation_fn_v0 AO TA =
     (1 - tanh (9 * (AO - pi / 9))) / 3 + 1 / 3
       + min (artanh (1 - max (2 * TA / pi) (1 / 10000)) / (2 * pi)) 0 + 1 / 2"

definition orientation_fn_v1 :: "real \<Rightarrow> real \<Rightarrow> real" where
  "orientation_fn_v1 AO TA =
     (1 - tanh (2 * (AO - pi / 2))) / 2
       * artanh (1 - max (2 * TA / pi) (1 / 10000)) / (2 * pi) + 1 / 2"

definition orientation_fn_v2 :: "real \<Rightarrow> real \<Rightarrow> real" where
  "orientation_fn_v2 AO TA =
     1 / (50 * AO / pi + 2) + 1 / 2
       + min (artanh (1 - max (2 * TA / pi) (1 / 10000)) / (2 * pi)) 0 + 1 / 2"

text \<open>
  \<^verbatim>\<open>get_orientation_function(self, version)\<close>: an \<^verbatim>\<open>if/elif\<close> chain on the tag that
  returns the lambda, or raises \<^verbatim>\<open>NotImplementedError\<close>.
\<close>

definition get_orientation_function :: "string \<Rightarrow> py_error + (real \<Rightarrow> real \<Rightarrow> real)" where
  "get_orientation_function version =
     (if version = ''v0'' then Inr orientation_fn_v0
      else if version = ''v1'' then Inr orientation_fn_v1
      else if version = ''v2'' then Inr orientation_fn_v2
      else Inl (NotImplementedError (''Unknown orientation function version: '' @ version)))"

text \<open>
  The three lambdas of \<^verbatim>\<open>get_range_funtion\<close> (the source's spelling), over \<open>R\<close>. They
  read \<^verbatim>\<open>self.target_dist\<close>, here the first argument. The constants are
  \<open>0.004 = 1/250\<close>, \<open>0.21 = 21/100\<close>, \<open>0.8 = 4/5\<close>, \<open>1.2 = 6/5\<close>, \<open>0.3 = 3/10\<close>;
  \<^verbatim>\<open>np.min([a, 1])\<close> is the smaller of the two.
\<close>

definition range_fn_v0 :: "real \<Rightarrow> real \<Rightarrow> real" where
  "range_fn_v0 target_dist R =
     exp (- ((R - target_dist) ^ 2) * (1 / 250)) / (1 + exp (- (R - target_dist + 2) * 2))"

definition range_fn_v1 :: "real \<Rightarrow> real \<Rightarrow> real" where
  "range_fn_v1 target_dist R =
     np_clip (6 / 5 * min (exp (- (R - target_dist) * (21 / 100))) 1
                / (1 + exp (- (R - target_dist + 1) * (4 / 5)))) (3 / 10) 1"

definition range_fn_v2 :: "real \<Rightarrow> real \<Rightarrow> real" where
  "range_fn_v2 target_dist R =
     max (np_clip (6 / 5 * min (exp (- (R - target_dist) * (21 / 100))) 1
                     / (1 + exp (- (R - target_dist + 1) * (4 / 5)))) (3 / 10) 1)
         (np_sign (7 - R))"

definition get_range_funtion :: "real \<Rightarrow> string \<Rightarrow> py_error + (real \<Rightarrow> real)" where
  "get_range_funtion target_dist version =
     (if version = ''v0'' then Inr (range_fn_v0 target_dist)
      else if version = ''v1'' then Inr (range_fn_v1 target_dist)
      else if version = ''v2'' then Inr (range_fn_v2 target_dist)
      else Inl (NotImplementedError (''Unknown range function version: '' @ version)))"

subsection \<open>Construction\<close>

text \<open>
  The configuration object is read with \<^verbatim>\<open>getattr(self.config, name, default)\<close>; the
  attribute names are built from the class name \<^verbatim>\<open>PostureReward\<close>.
\<close>

record config =
  config_num_agents :: "nat option"
  PostureReward_orientation_version :: "string option"
  PostureReward_range_version :: "string option"
  PostureReward_target_dist :: "real option"

record posture_reward =
  num_agents :: nat
  orientation_version :: string
  range_version :: string
  target_dist :: real
  orientation_fn :: "real \<Rightarrow> real \<Rightarrow> real"
  range_fn :: "real \<Rightarrow> real"
  reward_item_names :: "string list"

text \<open>
  \<^verbatim>\<open>PostureReward.__init__\<close>. The base class \<^verbatim>\<open>BaseRewardFunction\<close> is not among the
  sources; what its constructor leaves in \<^verbatim>\<open>self.num_agents\<close> is the first argument. The
  assertion comes first, then the three attributes, then the orientation function and
  then the range function, each of which can raise.
\<close>

definition PostureReward_init :: "nat \<Rightarrow> config \<Rightarrow> py_error + posture_reward" where
  "PostureReward_init base_num_agents cfg =
     (if base_num_agents \<noteq> 2 then
        Inl (AssertionError
          ''PostureReward only support one-to-one environments but current env has more than 2 agents!'')
      else
        let ov = getattr_default (PostureReward_orientation_version cfg) ''v2'';
            rv = getattr_default (PostureReward_range_version cfg) ''v2'';
            td = getattr_default (PostureReward_target_dist cfg) 3
        in case get_orientation_function ov of
             Inl e \<Rightarrow> Inl e
           | Inr ofn \<Rightarrow>
               (case get_range_funtion td rv of
                  Inl e \<Rightarrow> Inl e
                | Inr rfn \<Rightarrow>
                    Inr \<lparr> num_agents = base_num_agents,
                          orientation_version = ov,
                          range_version = rv,
                          target_dist = td,
                          orientation_fn = ofn,
                          range_fn = rfn,
                          reward_item_names =
                            map (\<lambda>item. ''PostureReward'' @ item) ['''', ''_orn'', ''_range''] \<rparr>))"

subsection \<open>The per-step reward\<close>

text \<open>
  The environment as the two files read it: \<^verbatim>\<open>env.sims[i].get_position()\<close> and
  \<^verbatim>\<open>get_velocity()\<close> are arrays of three floats, \<^verbatim>\<open>env.init_longitude\<close> and
  \<^verbatim>\<open>env.init_latitude\<close> are floats.
\<close>

record sim =
  get_position :: "real list"
  get_velocity :: "real list"

record env =
  sims :: "sim list"
  init_longitude :: real
  init_latitude :: real

text \<open>
  The feature of one aircraft, \<^verbatim>\<open>np.hstack([sim.get_position() / 1000,
  sim.get_velocity() / 340])\<close>: the scaled position followed by the scaled velocity.
\<close>

definition sim_feature :: "sim \<Rightarrow> real list" where
  "sim_feature s = map (\<lambda>x. x / 1000) (get_position s) @ map (\<lambda>x. x / 340) (get_velocity s)"

text \<open>
  \<^verbatim>\<open>PostureReward.get_reward(self, task, env, agent_id)\<close>. Two callees are not among
  the sources and are parameters here: the base class's \<^verbatim>\<open>_process\<close> (first argument)
  and the geometry helper \<^verbatim>\<open>get_AO_TA_R\<close> of \<^verbatim>\<open>utils/utils.py\<close> (second argument, in
  its three-result form).
\<close>

definition get_reward ::
  "(real \<Rightarrow> nat \<Rightarrow> real \<times> real \<Rightarrow> 'r) \<Rightarrow> (real list \<Rightarrow> real list \<Rightarrow> real \<times> real \<times> real)
     \<Rightarrow> posture_reward \<Rightarrow> env \<Rightarrow> nat \<Rightarrow> py_error + 'r" where
  "get_reward process get_AO_TA_R self e agent_id =
     (let ego_idx = agent_id; enm_idx = (agent_id + 1) mod num_agents self
      in case py_index (sims e) ego_idx of
           Inl err \<Rightarrow> Inl err
         | Inr ego_sim \<Rightarrow>
             (case py_index (sims e) enm_idx of
                Inl err \<Rightarrow> Inl err
              | Inr enm_sim \<Rightarrow>
                  (let ego_feature = sim_feature ego_sim;
                       enm_feature = sim_feature enm_sim;
                       (AO, TA, R) = get_AO_TA_R ego_feature enm_feature;
                       orientation_reward = orientation_fn self AO TA;
                       range_reward = range_fn self R;
                       new_reward = orientation_reward * range_reward
                   in Inr (process new_reward agent_id (orientation_reward, range_reward)))))"

text \<open>
  Modelled from the spec: \<^verbatim>\<open>BaseRewardFunction._process\<close> is missing from the sources.
  The spec's RewardEngine returns a RewardBreakdown \<open>{total, orientation_component,
  range_component}\<close>: the reward it is handed is the total, and the two items it is handed
  are reported as the diagnostic sub-components.
\<close>

record reward_breakdown =
  total :: real
  orientation_component :: real
  range_component :: real

text \<open>
  Modelled from the spec: what the missing \<^verbatim>\<open>_process\<close> returns for the reward and
  the pair of items \<^const>\<open>get_reward\<close> hands it.
\<close>

definition process_spec :: "real \<Rightarrow> nat \<Rightarrow> real \<times> real \<Rightarrow> reward_breakdown" where
  "process_spec new_reward agent_id render_items =
     \<lparr> total = new_reward,
       orientation_component = fst render_items,
       range_component = snd render_items \<rparr>"

section \<open>SingleCombatTask\<close>

subsection \<open>The declared spaces\<close>

text \<open>
  \<^verbatim>\<open>spaces.Box(low, high, shape=(n,))\<close> and \<^verbatim>\<open>spaces.MultiDiscrete(nvec)\<close> of gym, as far
  as the task reads them.
\<close>

record box =
  low :: real
  high :: real
  shape :: nat

record multi_discrete =
  nvec :: "nat list"

record task =
  task_num_agents :: nat
  observation_space :: "box list"
  action_space :: "multi_discrete list"

definition load_observation_space :: "task \<Rightarrow> task" where
  "load_observation_space self =
     self \<lparr> observation_space :=
              map (\<lambda>_. \<lparr> low = - 10, high = 10, shape = 18 \<rparr>) [0..<task_num_agents self] \<rparr>"

definition load_action_space :: "task \<Rightarrow> task" where
  "load_action_space self =
     self \<lparr> action_space :=
              map (\<lambda>_. \<lparr> nvec = [41, 41, 41, 30] \<rparr>) [0..<task_num_agents self] \<rparr>"

text \<open>
  \<^verbatim>\<open>SingleCombatTask.__init__\<close>, without the lists of reward functions and termination
  conditions it also builds: of those collaborators only \<^verbatim>\<open>PostureReward\<close> is among the
  sources, and it is modelled on its own above. \<^verbatim>\<open>load_variables\<close> only names simulator
  properties; the order it fixes is the order of the thirteen raw readings below.
\<close>

definition SingleCombatTask_init :: "config \<Rightarrow> py_error + task" where
  "SingleCombatTask_init cfg =
     (let n = getattr_default (config_num_agents cfg) 2
      in if n \<noteq> 2 then Inl (AssertionError ''Only support one-to-one fighter combat!'')
         else Inr (load_action_space (load_observation_space
                \<lparr> task_num_agents = n, observation_space = [], action_space = [] \<rparr>)))"

subsection \<open>Observation normalisation\<close>

text \<open>
  The inner \<^verbatim>\<open>_normalize(agent_id)\<close> of \<^verbatim>\<open>normalize_observation\<close>. Two helpers of
  \<^verbatim>\<open>utils/utils.py\<close> are not among the sources and are parameters: \<^verbatim>\<open>lonlat2dis\<close>, which
  returns \<open>(east, north)\<close>, and \<^verbatim>\<open>get_AO_TA_R\<close> in its four-result form
  (\<^verbatim>\<open>return_side=True\<close>). An agent's raw readings are a sequence in the order of
  \<^verbatim>\<open>state_var\<close>; the ego's are read up to position 12 and the enemy's up to position 8,
  and a shorter sequence raises \<^verbatim>\<open>IndexError\<close>. The constant \<open>0.304\<close> is \<open>38 / 125\<close>.
  The result lists the eighteen entries written into \<^verbatim>\<open>np.zeros(18)\<close>, by position.
\<close>

definition obs_normalize ::
  "(real \<Rightarrow> real \<Rightarrow> real \<Rightarrow> real \<Rightarrow> real \<times> real)
     \<Rightarrow> (real list \<Rightarrow> real list \<Rightarrow> real \<times> real \<times> real \<times> real)
     \<Rightarrow> task \<Rightarrow> env \<Rightarrow> real list list \<Rightarrow> nat \<Rightarrow> py_error + real list" where
  "obs_normalize lonlat2dis get_AO_TA_R self e observations agent_id =
     (let ego_idx = agent_id; enm_idx = (agent_id + 1) mod task_num_agents self
      in case py_index observations ego_idx of
           Inl err \<Rightarrow> Inl err
         | Inr ego_obs_list \<Rightarrow>
             (case py_index observations enm_idx of
                Inl err \<Rightarrow> Inl err
              | Inr enm_obs_list \<Rightarrow>
                  if length ego_obs_list \<le> 12 \<or> length enm_obs_list \<le> 8 then Inl IndexError
                  else
                    (let (ego_cur_east, ego_cur_north) =
                           lonlat2dis (ego_obs_list ! 0) (ego_obs_list ! 1)
                             (init_longitude e) (init_latitude e);
                         (enm_cur_east, enm_cur_north) =
                           lonlat2dis (enm_obs_list ! 0) (enm_obs_list ! 1)
                             (init_longitude e) (init_latitude e);
                         ego_feature =
                           [ego_cur_north / 1000, ego_cur_east / 1000,
                            ego_obs_list ! 2 * (38 / 125) / 1000,
                            ego_obs_list ! 6 * (38 / 125) / 340,
                            ego_obs_list ! 7 * (38 / 125) / 340,
                            ego_obs_list ! 8 * (38 / 125) / 340];
                         enm_feature =
                           [enm_cur_north / 1000, enm_cur_east / 1000,
                            enm_obs_list ! 2 * (38 / 125) / 1000,
                            enm_obs_list ! 6 * (38 / 125) / 340,
                            enm_obs_list ! 7 * (38 / 125) / 340,
                            enm_obs_list ! 8 * (38 / 125) / 340];
                         (ego_AO, ego_TA, R, side_flag) = get_AO_TA_R ego_feature enm_feature
                     in Inr [ego_obs_list ! 2 * (38 / 125) / 5000,
                             linalg_norm (drop 3 ego_feature),
                             ego_obs_list ! 8,
                             sin (ego_obs_list ! 3),
                             cos (ego_obs_list ! 3),
                             sin (ego_obs_list ! 4),
                             cos (ego_obs_list ! 4),
                             ego_obs_list ! 9 * (38 / 125) / 340,
                             ego_obs_list ! 10,
                             ego_obs_list ! 11,
                             ego_obs_list ! 12,
                             R / 10,
                             ego_AO,
                             ego_TA,
                             side_flag,
                             enm_obs_list ! 2 * (38 / 125) / 5000,
                             linalg_norm (drop 3 enm_feature),
                             enm_obs_list ! 8])))"

definition normalize_observation ::
  "(real \<Rightarrow> real \<Rightarrow> real \<Rightarrow> real \<Rightarrow> real \<times> real)
     \<Rightarrow> (real list \<Rightarrow> real list \<Rightarrow> real \<times> real \<times> real \<times> real)
     \<Rightarrow> task \<Rightarrow> env \<Rightarrow> real list list \<Rightarrow> py_error + real list list" where
  "normalize_observation lonlat2dis get_AO_TA_R self e observations =
     for_agents (obs_normalize lonlat2dis get_AO_TA_R self e observations)
       [0..<task_num_agents self]"

subsection \<open>Action de-quantisation\<close>

text \<open>
  The inner \<^verbatim>\<open>_normalize(agent_id)\<close> of \<^verbatim>\<open>normalize_action\<close>. The level counts are
  read from \<^verbatim>\<open>self.action_space[0].nvec\<close> for every agent. There is no test of the
  index against the level count: the only exception is the \<^verbatim>\<open>IndexError\<close> of a missing
  row or a row of fewer than four indices. The constants are \<open>2.\<close>, \<open>0.5 = 1/2\<close> and
  \<open>0.4 = 2/5\<close>.
\<close>

definition act_normalize :: "task \<Rightarrow> int list list \<Rightarrow> nat \<Rightarrow> py_error + real list" where
  "act_normalize self actions agent_id =
     (case py_index actions agent_id of
        Inl err \<Rightarrow> Inl err
      | Inr a \<Rightarrow>
          (case py_index (action_space self) 0 of
             Inl err \<Rightarrow> Inl err
           | Inr space0 \<Rightarrow>
               if length a \<le> 3 \<or> length (nvec space0) \<le> 3 then Inl IndexError
               else Inr [real_of_int (a ! 0) * 2 / (real (nvec space0 ! 0) - 1) - 1,
                         real_of_int (a ! 1) * 2 / (real (nvec space0 ! 1) - 1) - 1,
                         real_of_int (a ! 2) * 2 / (real (nvec space0 ! 2) - 1) - 1,
                         real_of_int (a ! 3) * (1 / 2) / (real (nvec space0 ! 3) - 1) + 2 / 5]))"

definition normalize_action :: "task \<Rightarrow> env \<Rightarrow> int list list \<Rightarrow> py_error + real list list" where
  "normalize_action self e actions =
     for_agents (act_normalize self actions) [0..<task_num_agents self]"

section \<open>Definitions that follow the specification\<close>

text \<open>
  Modelled from the spec: the geometry helper \<^verbatim>\<open>get_AO_TA_R\<close> of \<^verbatim>\<open>utils/utils.py\<close> is
  missing from the sources. Section 4.1 of the specification gives its contract: the
  relative position is the enemy's position minus the ego's, \<open>R\<close> is its Euclidean norm;
  AO is \<open>arccos (clip (dot / (|v| |los|)) (-1) 1)\<close> between the ego's velocity and the line
  of sight, and \<open>0\<close> when either vector has near-zero magnitude; TA is the same formula for
  the enemy's velocity and the reversed line of sight; the side flag is the sign of the
  two-dimensional cross product of the ego's velocity and the line of sight in the
  north-east plane. The specification does not give the size of "near zero": it is the
  parameter \<open>eps\<close>.
\<close>

definition dot_spec :: "real list \<Rightarrow> real list \<Rightarrow> real" where
  "dot_spec v w = sum_list (map2 (*) v w)"

text \<open>
  Modelled from the spec: the clipped-arccos angle of the missing \<^verbatim>\<open>get_AO_TA_R\<close>,
  with the fallback \<open>0\<close> for a vector of near-zero magnitude.
\<close>

definition clipped_angle_spec :: "real \<Rightarrow> real list \<Rightarrow> real list \<Rightarrow> real" where
  "clipped_angle_spec eps v w =
     (if linalg_norm v \<le> eps \<or> linalg_norm w \<le> eps then 0
      else arccos (np_clip (dot_spec v w / (linalg_norm v * linalg_norm w)) (- 1) 1))"

text \<open>
  Modelled from the spec: the missing \<^verbatim>\<open>get_AO_TA_R\<close> in its four-result form, on
  two six-entry features (position, then velocity).
\<close>

definition get_AO_TA_R_spec ::
  "real \<Rightarrow> real list \<Rightarrow> real list \<Rightarrow> real \<times> real \<times> real \<times> real" where
  "get_AO_TA_R_spec eps ego enemy =
     (let los = map2 (-) (take 3 enemy) (take 3 ego);
          ego_v = drop 3 ego;
          enm_v = drop 3 enemy;
          R = linalg_norm los;
          AO = clipped_angle_spec eps ego_v los;
          TA = clipped_angle_spec eps enm_v (map uminus los);
          side = np_sign (ego_v ! 0 * los ! 1 - ego_v ! 1 * los ! 0)
      in (AO, TA, R, side))"

text \<open>
  The specification's linear de-quantisation of a control with \<open>N\<close> levels over
  \<open>[lo, hi]\<close>, and the inverse quantisation that its round trip refers to: the nearest
  level to the inverse linear map.
\<close>

definition dequantize_spec :: "nat \<Rightarrow> real \<Rightarrow> real \<Rightarrow> int \<Rightarrow> real" where
  "dequantize_spec N lo hi i = real_of_int i * (hi - lo) / (real N - 1) + lo"

definition quantize_spec :: "nat \<Rightarrow> real \<Rightarrow> real \<Rightarrow> real \<Rightarrow> int" where
  "quantize_spec N lo hi v = round ((v - lo) * (real N - 1) / (hi - lo))"

section \<open>Reference inputs\<close>

text \<open>
  A configuration object that sets none of the four attributes, the reward object that
  \<^verbatim>\<open>PostureReward(config)\<close> builds from it in a two-agent environment, and the task that
  \<^verbatim>\<open>SingleCombatTask(config)\<close> builds from it.
\<close>

definition default_config :: config where
  "default_config =
     \<lparr> config_num_agents = None,
       PostureReward_orientation_version = None,
       PostureReward_range_version = None,
       PostureReward_target_dist = None \<rparr>"

definition default_posture_reward :: posture_reward where
  "default_posture_reward =
     \<lparr> num_agents = 2,
       orientation_version = ''v2'',
       range_version = ''v2'',
       target_dist = 3,
       orientation_fn = orientation_fn_v2,
       range_fn = range_fn_v2 3,
       reward_item_names = [''PostureReward'', ''PostureReward_orn'', ''PostureReward_range''] \<rparr>"

definition default_task :: task where
  "default_task =
     \<lparr> task_num_agents = 2,
       observation_space = [\<lparr> low = - 10, high = 10, shape = 18 \<rparr>,
                            \<lparr> low = - 10, high = 10, shape = 18 \<rparr>],
       action_space = [\<lparr> nvec = [41, 41, 41, 30] \<rparr>, \<lparr> nvec = [41, 41, 41, 30] \<rparr>] \<rparr>"

text \<open>
  An encounter of two aircraft. For the reward: positions in metres and velocities in
  metres per second, the second aircraft five kilometres north of the first. For the
  observation: the thirteen raw readings of each aircraft in the order of \<^verbatim>\<open>state_var\<close>
  (longitude and latitude in degrees, altitude in feet, roll, pitch and yaw in radians,
  north, east and down velocity and calibrated airspeed in feet per second, three load
  factors in G). The first aircraft flies at 900 ft/s and descends at 100 ft/s, the second
  flies at 650 ft/s and climbs at 50 ft/s.
\<close>

definition sample_env :: env where
  "sample_env =
     \<lparr> sims = [\<lparr> get_position = [0, 0, 6000], get_velocity = [250, 0, 0] \<rparr>,
               \<lparr> get_position = [5000, 0, 6000], get_velocity = [250, 0, 0] \<rparr>],
       init_longitude = 120,
       init_latitude = 60 \<rparr>"

definition sample_observations :: "real list list" where
  "sample_observations =
     [[120, 60, 20000, 0, 0, 0, 800, 400, 100, 900, 0, 0, 1],
      [1201 / 10, 601 / 10, 21000, 0, 0, 0, 600, 250, - 50, 650, 0, 0, 1]]"

text \<open>
  The geometry of encounters like this one, where both aircraft fly due north one behind
  the other: both angles are zero and the range is the difference of the north
  coordinates. It stands in for the geometry helper where a concrete one is needed.
\<close>

definition in_trail_geometry :: "real list \<Rightarrow> real list \<Rightarrow> real \<times> real \<times> real" where
  "in_trail_geometry ego enm = (0, 0, enm ! 0 - ego ! 0)"

text \<open>
  A flat-earth stand-in for \<^verbatim>\<open>lonlat2dis\<close>: east and north offsets from the origin,
  at 100 km per degree.
\<close>

definition flat_lonlat2dis :: "real \<Rightarrow> real \<Rightarrow> real \<Rightarrow> real \<Rightarrow> real \<times> real" where
  "flat_lonlat2dis lon lat init_lon init_lat = ((lon - init_lon) * 100000, (lat - init_lat) * 100000)"

text \<open>
  The six-entry feature that \<^verbatim>\<open>_normalize\<close> builds from one aircraft's raw readings
  (north, east and altitude in kilometres, the three velocities in Mach units), as a
  function of its own: \<^const>\<open>obs_normalize\<close> builds it inline, once for the ego and once
  for the enemy, and the facts below name it.
\<close>

definition raw_feature ::
  "(real \<Rightarrow> real \<Rightarrow> real \<Rightarrow> real \<Rightarrow> real \<times> real) \<Rightarrow> env \<Rightarrow> real list \<Rightarrow> real list" where
  "raw_feature lonlat2dis e obs_list =
     [snd (lonlat2dis (obs_list ! 0) (obs_list ! 1) (init_longitude e) (init_latitude e)) / 1000,
      fst (lonlat2dis (obs_list ! 0) (obs_list ! 1) (init_longitude e) (init_latitude e)) / 1000,
      obs_list ! 2 * (38 / 125) / 1000,
      obs_list ! 6 * (38 / 125) / 340,
      obs_list ! 7 * (38 / 125) / 340,
      obs_list ! 8 * (38 / 125) / 340]"

section \<open>Basic facts about the embedding\<close>

lemma upt_0_2: "[0..<2] = [0, Suc 0]"
  by (simp add: numeral_2_eq_2)

lemma np_clip_le_hi: "np_clip x lo hi \<le> hi"
  by (simp add: np_clip_def)

text \<open>The floor keeps the argument of the inverse hyperbolic tangent at \<open>0.9999\<close> for \<open>TA = 0\<close>.\<close>

lemma artanh_floor_pos: "0 < artanh (9999 / 10000 :: real)"
proof -
  have "(1::real) < (1 + 9999 / 10000) / (1 - 9999 / 10000)" by simp
  then have "0 < ln ((1 + 9999 / 10000) / (1 - 9999 / 10000 :: real))" by (rule ln_gt_zero)
  then show ?thesis by (simp add: artanh_def)
qed

lemma TA_term_at_zero:
  "min (artanh (1 - max (2 * 0 / pi) (1 / 10000)) / (2 * pi)) 0 = (0::real)"
proof -
  have "0 < artanh (9999 / 10000 :: real) / (2 * pi)"
    using artanh_floor_pos by (intro divide_pos_pos) simp_all
  then show ?thesis by (simp add: min_def)
qed

lemma TA_term_at_half_pi:
  "min (artanh (1 - max (2 * (pi / 2) / pi) (1 / 10000)) / (2 * pi)) 0 = (0::real)"
  by simp

subsection \<open>What the constructors return\<close>

lemma SingleCombatTask_init_Inr:
  assumes "SingleCombatTask_init cfg = Inr self"
  shows "self = default_task"
  using assms
  by (auto simp: SingleCombatTask_init_def Let_def load_action_space_def
      load_observation_space_def upt_0_2 default_task_def split: if_splits)

lemma SingleCombatTask_init_default: "SingleCombatTask_init default_config = Inr default_task"
  by (simp add: SingleCombatTask_init_def getattr_default_def load_action_space_def
      load_observation_space_def upt_0_2 default_task_def default_config_def)

lemma PostureReward_init_default:
  "PostureReward_init 2 default_config = Inr default_posture_reward"
  by (simp add: PostureReward_init_def default_config_def getattr_default_def Let_def
      get_orientation_function_def get_range_funtion_def default_posture_reward_def)

lemma PostureReward_init_Inr:
  assumes "PostureReward_init n cfg = Inr self"
  shows "n = 2" and "num_agents self = 2"
    and "orientation_version self = getattr_default (PostureReward_orientation_version cfg) ''v2''"
    and "range_version self = getattr_default (PostureReward_range_version cfg) ''v2''"
    and "target_dist self = getattr_default (PostureReward_target_dist cfg) 3"
    and "get_orientation_function (orientation_version self) = Inr (orientation_fn self)"
    and "get_range_funtion (target_dist self) (range_version self) = Inr (range_fn self)"
  using assms
  by (auto simp: PostureReward_init_def Let_def split: if_splits sum.splits)

text \<open>
  With two simulators and an agent index below two, \<^const>\<open>get_reward\<close> raises nothing and
  hands \<^verbatim>\<open>_process\<close> the product and the two factors.
\<close>

lemma get_reward_eval:
  assumes "num_agents self = 2" and "agent_id < 2" and "length (sims e) = 2"
    and "G (sim_feature (sims e ! agent_id)) (sim_feature (sims e ! ((agent_id + 1) mod 2)))
           = (AO, TA, R)"
  shows "get_reward process G self e agent_id =
           Inr (process (orientation_fn self AO TA * range_fn self R) agent_id
                  (orientation_fn self AO TA, range_fn self R))"
proof -
  have "(agent_id + 1) mod 2 < 2" by simp
  with assms show ?thesis
    by (simp add: get_reward_def py_index_def Let_def)
qed

lemma sample_env_two_sims: "length (sims sample_env) = 2"
  by (simp add: sample_env_def)

lemma sample_env_in_trail:
  "in_trail_geometry (sim_feature (sims sample_env ! 0))
     (sim_feature (sims sample_env ! ((0 + 1) mod 2))) = (0, 0, 5)"
  by (simp add: sample_env_def sim_feature_def in_trail_geometry_def)

section \<open>The posture reward\<close>

text \<open>
  C1. For every geometry triple \<open>(AO, TA, R)\<close> and every reward object that the constructor
  builds, its two functions are the ones \<^const>\<open>get_orientation_function\<close> and
  \<^const>\<open>get_range_funtion\<close> return for the configured version tags, and
  \<^const>\<open>get_reward\<close> returns a total equal to the product of the orientation function at
  \<open>(AO, TA)\<close> and the range function at \<open>R\<close>, with exactly those two factors as the
  diagnostic sub-components. What is done with the product is \<^const>\<open>process_spec\<close>, which
  follows the specification.
\<close>

theorem get_reward_is_product:
  assumes "PostureReward_init n cfg = Inr self"
    and "agent_id < 2" and "length (sims e) = 2"
    and "G (sim_feature (sims e ! agent_id)) (sim_feature (sims e ! ((agent_id + 1) mod 2)))
           = (AO, TA, R)"
  shows "get_orientation_function (orientation_version self) = Inr (orientation_fn self)
       \<and> get_range_funtion (target_dist self) (range_version self) = Inr (range_fn self)
       \<and> get_reward process_spec G self e agent_id =
           Inr \<lparr> total = orientation_fn self AO TA * range_fn self R,
                 orientation_component = orientation_fn self AO TA,
                 range_component = range_fn self R \<rparr>"
proof -
  have "num_agents self = 2"
    by (rule PostureReward_init_Inr(2) [OF assms(1)])
  then have "get_reward process_spec G self e agent_id =
           Inr (process_spec (orientation_fn self AO TA * range_fn self R) agent_id
                  (orientation_fn self AO TA, range_fn self R))"
    using assms(2,3,4) by (rule get_reward_eval)
  then show ?thesis
    using PostureReward_init_Inr(6,7) [OF assms(1)] by (simp add: process_spec_def)
qed

theorem get_reward_is_product_witness:
  "PostureReward_init 2 default_config = Inr default_posture_reward
   \<and> (0::nat) < 2 \<and> length (sims sample_env) = 2
   \<and> get_reward process_spec in_trail_geometry default_posture_reward sample_env 0
       = Inr \<lparr> total = orientation_fn_v2 0 0 * range_fn_v2 3 5,
               orientation_component = orientation_fn_v2 0 0,
               range_component = range_fn_v2 3 5 \<rparr>"
proof -
  have two: "(0::nat) < 2" by simp
  show ?thesis
    using get_reward_is_product [where G = in_trail_geometry,
        OF PostureReward_init_default two sample_env_two_sims sample_env_in_trail]
      PostureReward_init_default sample_env_two_sims
    by (simp add: default_posture_reward_def)
qed

text \<open>
  C3. For every range \<open>R\<close> and every target distance, the v2 range reward is the larger of
  the v1 range reward (the clipped smooth formula) and \<open>sign (7 - R)\<close>. It is therefore at
  least \<open>sign (7 - R)\<close>: at least \<open>1\<close> below 7 km, at least \<open>0\<close> at 7 km, at least \<open>-1\<close> beyond
  7 km, and in particular at least \<open>-1\<close> at 10 km.
\<close>

theorem range_v2_floor:
  "get_range_funtion td ''v2'' = Inr (range_fn_v2 td)
   \<and> range_fn_v2 td R = max (range_fn_v1 td R) (np_sign (7 - R))
   \<and> np_sign (7 - R) \<le> range_fn_v2 td R
   \<and> (R < 7 \<longrightarrow> 1 \<le> range_fn_v2 td R)
   \<and> (R = 7 \<longrightarrow> 0 \<le> range_fn_v2 td R)
   \<and> (7 < R \<longrightarrow> - 1 \<le> range_fn_v2 td R)
   \<and> - 1 \<le> range_fn_v2 td 10"
proof -
  have eq: "range_fn_v2 td x = max (range_fn_v1 td x) (np_sign (7 - x))" for x
    by (simp add: range_fn_v2_def range_fn_v1_def)
  have floor: "np_sign (7 - x) \<le> range_fn_v2 td x" for x
    by (simp add: eq)
  have "1 \<le> range_fn_v2 td R" if "R < 7"
    using floor [of R] that by (simp add: np_sign_def)
  moreover have "0 \<le> range_fn_v2 td R" if "R = 7"
    using floor [of R] that by (simp add: np_sign_def)
  moreover have "- 1 \<le> range_fn_v2 td R" if "7 < R"
    using floor [of R] that by (simp add: np_sign_def)
  moreover have "- 1 \<le> range_fn_v2 td 10"
    using floor [of 10] by (simp add: np_sign_def)
  ultimately show ?thesis
    using eq floor by (simp add: get_range_funtion_def)
qed

theorem range_v2_floor_witness:
  "(5::real) < 7 \<and> 1 \<le> range_fn_v2 3 5 \<and> 0 \<le> range_fn_v2 3 7
   \<and> (7::real) < 8 \<and> - 1 \<le> range_fn_v2 3 8"
  using range_v2_floor [of 3 5] range_v2_floor [of 3 7] range_v2_floor [of 3 8]
  by simp

text \<open>
  C4. At \<open>AO = 0\<close> and \<open>TA = 0\<close> the v2 orientation reward is \<open>1/2 + 1/2 + 0 + 1/2 = 3/2\<close>:
  the argument of the inverse hyperbolic tangent is \<open>1 - 1/10000\<close>, its value is positive,
  so the \<open>min\<close> with zero contributes nothing. No \<open>AO\<close> and \<open>TA\<close> in \<open>[0, pi]\<close> give more.
\<close>

theorem orientation_v2_maximum:
  "get_orientation_function ''v2'' = Inr orientation_fn_v2
   \<and> 0 < artanh (1 - max (2 * 0 / pi) (1 / 10000 :: real))
   \<and> orientation_fn_v2 0 0 = 1 / 2 + 1 / 2 + 0 + 1 / 2
   \<and> orientation_fn_v2 0 0 = 3 / 2
   \<and> (0 \<le> AO \<and> AO \<le> pi \<and> 0 \<le> TA \<and> TA \<le> pi
        \<longrightarrow> orientation_fn_v2 AO TA \<le> orientation_fn_v2 0 0)"
proof -
  have pos: "0 < artanh (1 - max (2 * 0 / pi) (1 / 10000 :: real))"
    using artanh_floor_pos by simp
  have at0: "orientation_fn_v2 0 0 = 3 / 2"
    unfolding orientation_fn_v2_def TA_term_at_zero by simp
  have "orientation_fn_v2 AO TA \<le> 3 / 2" if "0 \<le> AO"
  proof -
    have "0 \<le> 50 * AO / pi" using that by simp
    then have "1 / (50 * AO / pi + 2) \<le> 1 / 2"
      by (intro divide_left_mono) auto
    moreover have "min (artanh (1 - max (2 * TA / pi) (1 / 10000)) / (2 * pi)) 0 \<le> 0"
      by simp
    ultimately show ?thesis unfolding orientation_fn_v2_def by linarith
  qed
  then have "0 \<le> AO \<and> AO \<le> pi \<and> 0 \<le> TA \<and> TA \<le> pi
        \<longrightarrow> orientation_fn_v2 AO TA \<le> orientation_fn_v2 0 0"
    unfolding at0 by blast
  moreover have "get_orientation_function ''v2'' = Inr orientation_fn_v2"
    by (simp add: get_orientation_function_def)
  moreover have "orientation_fn_v2 0 0 = 1 / 2 + 1 / 2 + 0 + 1 / 2"
    using at0 by simp
  ultimately show ?thesis using pos at0 by blast
qed

theorem orientation_v2_maximum_witness:
  "(0::real) \<le> pi / 3 \<and> pi / 3 \<le> pi \<and> (0::real) \<le> pi / 2 \<and> pi / 2 \<le> pi
   \<and> orientation_fn_v2 (pi / 3) (pi / 2) \<le> orientation_fn_v2 0 0"
  using orientation_v2_maximum [of "pi / 3" "pi / 2"] by simp

text \<open>
  C9. For every \<open>R\<close> strictly below 7 km the v2 range reward is exactly \<open>1\<close>, whatever the
  target distance: the clipped term is at most \<open>1\<close> and \<open>sign (7 - R) = 1\<close>. Consequently,
  for a reward object configured with range version v2, the reward handed to
  \<^verbatim>\<open>_process\<close> is the orientation component alone, and the range component is \<open>1\<close>.
\<close>

theorem range_v2_below_7:
  "R < 7 \<longrightarrow>
     range_fn_v2 td R = 1
     \<and> (PostureReward_init n cfg = Inr self \<and> range_version self = ''v2''
          \<and> agent_id < 2 \<and> length (sims e) = 2
          \<and> G (sim_feature (sims e ! agent_id)) (sim_feature (sims e ! ((agent_id + 1) mod 2)))
              = (AO, TA, R)
        \<longrightarrow> get_reward process G self e agent_id
              = Inr (process (orientation_fn self AO TA) agent_id (orientation_fn self AO TA, 1)))"
proof (intro impI conjI)
  assume R: "R < 7"
  have one: "range_fn_v2 t R = 1" for t
  proof -
    have "np_clip x (3 / 10) 1 \<le> 1" for x by (rule np_clip_le_hi)
    then show ?thesis
      using R by (simp add: range_fn_v2_def np_sign_def max_def)
  qed
  show "range_fn_v2 td R = 1" by (rule one)
  assume a: "PostureReward_init n cfg = Inr self \<and> range_version self = ''v2''
          \<and> agent_id < 2 \<and> length (sims e) = 2
          \<and> G (sim_feature (sims e ! agent_id)) (sim_feature (sims e ! ((agent_id + 1) mod 2)))
              = (AO, TA, R)"
  then have init: "PostureReward_init n cfg = Inr self" by blast
  have "get_range_funtion (target_dist self) ''v2'' = Inr (range_fn self)"
    using PostureReward_init_Inr(7) [OF init] a by simp
  then have rf: "range_fn self = range_fn_v2 (target_dist self)"
    by (simp add: get_range_funtion_def)
  have "get_reward process G self e agent_id =
           Inr (process (orientation_fn self AO TA * range_fn self R) agent_id
                  (orientation_fn self AO TA, range_fn self R))"
    using PostureReward_init_Inr(2) [OF init] a by (intro get_reward_eval) auto
  then show "get_reward process G self e agent_id
              = Inr (process (orientation_fn self AO TA) agent_id (orientation_fn self AO TA, 1))"
    by (simp add: rf one)
qed

theorem range_v2_below_7_witness:
  "(5::real) < 7 \<and> range_fn_v2 3 5 = 1
   \<and> PostureReward_init 2 default_config = Inr default_posture_reward
   \<and> range_version default_posture_reward = ''v2''
   \<and> (0::nat) < 2 \<and> length (sims sample_env) = 2
   \<and> get_reward process_spec in_trail_geometry default_posture_reward sample_env 0
       = Inr \<lparr> total = 3 / 2, orientation_component = 3 / 2, range_component = 1 \<rparr>"
proof -
  have R: "(5::real) < 7" by simp
  have hyp: "PostureReward_init 2 default_config = Inr default_posture_reward
      \<and> range_version default_posture_reward = ''v2''
      \<and> (0::nat) < 2 \<and> length (sims sample_env) = 2
      \<and> in_trail_geometry (sim_feature (sims sample_env ! 0))
           (sim_feature (sims sample_env ! ((0 + 1) mod 2))) = (0, 0, 5)"
    using PostureReward_init_default sample_env_two_sims sample_env_in_trail
    by (simp add: default_posture_reward_def)
  have at0: "orientation_fn_v2 0 0 = 3 / 2"
    unfolding orientation_fn_v2_def TA_term_at_zero by simp
  from range_v2_below_7 [where G = in_trail_geometry and R = 5 and td = 3 and n = 2
      and cfg = default_config and self = default_posture_reward and agent_id = 0
      and e = sample_env and AO = 0 and TA = 0 and process = process_spec] R hyp
  have "range_fn_v2 3 5 = 1
     \<and> get_reward process_spec in_trail_geometry default_posture_reward sample_env 0
         = Inr (process_spec (orientation_fn default_posture_reward 0 0) 0
                  (orientation_fn default_posture_reward 0 0, 1))"
    by blast
  then show ?thesis
    using hyp R at0 by (simp add: process_spec_def default_posture_reward_def)
qed

text \<open>Version v1 multiplies the \<open>TA\<close> term in; at \<open>TA = pi / 2\<close> that term vanishes.\<close>

lemma orientation_v1_half_pi: "orientation_fn_v1 AO (pi / 2) = 1 / 2"
  by (simp add: orientation_fn_v1_def)

text \<open>
  The sign of the inverse hyperbolic tangent, and the sign of the \<open>TA\<close> term of version
  v1 on either side of \<open>TA = pi / 2\<close>: its \<open>AO\<close> factor is always positive.
\<close>

lemma artanh_nonpos:
  assumes "- 1 \<le> x" and "x \<le> 0"
  shows "artanh (x::real) \<le> 0"
proof (cases "x = - 1")
  case True
  then show ?thesis by (simp add: artanh_def)
next
  case False
  with assms have x: "- 1 < x" by simp
  then have q: "0 < (1 + x) / (1 - x)"
    using assms(2) by (intro divide_pos_pos) simp_all
  have "(1 + x) / (1 - x) \<le> 1"
    using assms(2) x by (simp add: field_simps)
  then have "ln ((1 + x) / (1 - x)) \<le> 0"
    using q by simp
  then show ?thesis by (simp add: artanh_def)
qed

lemma artanh_pos:
  assumes "0 < x" and "x < 1"
  shows "0 < artanh (x::real)"
proof -
  have "1 < (1 + x) / (1 - x)"
    using assms by (simp add: field_simps)
  then have "0 < ln ((1 + x) / (1 - x))" by (rule ln_gt_zero)
  then show ?thesis by (simp add: artanh_def)
qed

lemma v1_factor_pos: "0 < (1 - tanh (y::real)) / 2"
  using tanh_real_lt_1 [of y] by simp

lemma orientation_v1_above_half_pi:
  assumes "pi / 2 \<le> TA" and "TA \<le> pi"
  shows "orientation_fn_v1 AO TA \<le> orientation_fn_v1 AO (pi / 2)"
proof -
  have ge: "1 \<le> 2 * TA / pi"
    using assms(1) pi_gt_zero by (simp add: field_simps)
  have le: "2 * TA / pi \<le> 2"
    using assms(2) pi_gt_zero by (simp add: field_simps)
  have m: "max (2 * TA / pi) (1 / 10000) = 2 * TA / pi"
    using ge by (intro max_absorb1) linarith
  have "artanh (1 - 2 * TA / pi) \<le> 0"
    using ge le by (intro artanh_nonpos) simp_all
  then have "(1 - tanh (2 * (AO - pi / 2))) / 2 * artanh (1 - 2 * TA / pi) \<le> 0"
    using v1_factor_pos [of "2 * (AO - pi / 2)"] by (simp add: mult_le_0_iff)
  then have "(1 - tanh (2 * (AO - pi / 2))) / 2 * artanh (1 - 2 * TA / pi) / (2 * pi) \<le> 0"
    using pi_gt_zero by (simp add: divide_le_0_iff)
  then have "orientation_fn_v1 AO TA \<le> 1 / 2"
    unfolding orientation_fn_v1_def m by linarith
  then show ?thesis by (simp add: orientation_v1_half_pi)
qed

lemma orientation_v1_below_half_pi:
  assumes "TA < pi / 2"
  shows "orientation_fn_v1 AO (pi / 2) < orientation_fn_v1 AO TA"
proof -
  have lt: "2 * TA / pi < 1"
    using assms pi_gt_zero by (simp add: field_simps)
  then have m1: "max (2 * TA / pi) (1 / 10000) < 1"
    by simp
  have "(0::real) < 1 / 10000" by simp
  also have "1 / 10000 \<le> max (2 * TA / pi) (1 / 10000)"
    by (rule max.cobounded2)
  finally have m0: "0 < max (2 * TA / pi) (1 / 10000)" .
  have "0 < artanh (1 - max (2 * TA / pi) (1 / 10000))"
    using m0 m1 by (intro artanh_pos) simp_all
  then have "0 < (1 - tanh (2 * (AO - pi / 2))) / 2
      * artanh (1 - max (2 * TA / pi) (1 / 10000))"
    using v1_factor_pos [of "2 * (AO - pi / 2)"] by (intro mult_pos_pos)
  then have "0 < (1 - tanh (2 * (AO - pi / 2))) / 2
      * artanh (1 - max (2 * TA / pi) (1 / 10000)) / (2 * pi)"
    using pi_gt_zero by (intro divide_pos_pos) simp_all
  then have "1 / 2 < orientation_fn_v1 AO TA"
    unfolding orientation_fn_v1_def by linarith
  then show ?thesis by (simp add: orientation_v1_half_pi)
qed

text \<open>
  C2, as stated, fails for version v1: at \<open>AO = pi / 2\<close> the reward at \<open>TA = 0\<close> is larger
  than the reward at \<open>TA = pi / 2\<close>, so there the \<open>TA\<close> term rewards.
\<close>

theorem orientation_v1_TA_rewards:
  "get_orientation_function ''v1'' = Inr orientation_fn_v1
   \<and> (0::real) \<le> pi / 2 \<and> pi / 2 \<le> pi \<and> (0::real) \<le> 0 \<and> 0 \<le> pi
   \<and> \<not> orientation_fn_v1 (pi / 2) 0 \<le> orientation_fn_v1 (pi / 2) (pi / 2)"
proof -
  have "0 < 1 / 2 * artanh (9999 / 10000 :: real) / (2 * pi)"
    using artanh_floor_pos by simp
  then have "1 / 2 < orientation_fn_v1 (pi / 2) 0"
    by (simp add: orientation_fn_v1_def)
  then show ?thesis
    by (simp add: orientation_v1_half_pi get_orientation_function_def)
qed

text \<open>
  C2, amended. For the orientation versions v0 and v2, the two whose \<open>TA\<close> term is
  \<open>min (\<dots>) 0\<close>, and for every \<open>AO\<close> and \<open>TA\<close> in \<open>[0, pi]\<close>, the orientation reward at
  \<open>(AO, TA)\<close> is at most its value at the same \<open>AO\<close> and \<open>TA = pi / 2\<close>, where the \<open>TA\<close>
  term is zero. For version v1, which has no \<open>min\<close>, the same holds for every \<open>AO\<close> in
  \<open>[0, pi]\<close> and \<open>TA\<close> in \<open>[pi / 2, pi]\<close>; for \<open>TA\<close> in \<open>[0, pi / 2)\<close> the v1 reward is
  strictly larger than its value at \<open>TA = pi / 2\<close>.
\<close>

theorem orientation_TA_only_penalizes:
  "((v = ''v0'' \<or> v = ''v2'') \<and> 0 \<le> AO \<and> AO \<le> pi \<and> 0 \<le> TA \<and> TA \<le> pi \<longrightarrow>
     (case get_orientation_function v of
        Inl err \<Rightarrow> False
      | Inr f \<Rightarrow> f AO TA \<le> f AO (pi / 2)))
   \<and> get_orientation_function ''v1'' = Inr orientation_fn_v1
   \<and> (0 \<le> AO \<and> AO \<le> pi \<and> pi / 2 \<le> TA \<and> TA \<le> pi \<longrightarrow>
        orientation_fn_v1 AO TA \<le> orientation_fn_v1 AO (pi / 2))
   \<and> (0 \<le> AO \<and> AO \<le> pi \<and> 0 \<le> TA \<and> TA < pi / 2 \<longrightarrow>
        orientation_fn_v1 AO (pi / 2) < orientation_fn_v1 AO TA)"
proof (intro conjI)
  have m: "min (artanh (1 - max (2 * TA / pi) (1 / 10000)) / (2 * pi)) 0 \<le> 0"
    by simp
  have v0: "orientation_fn_v0 AO TA \<le> orientation_fn_v0 AO (pi / 2)"
    using m unfolding orientation_fn_v0_def TA_term_at_half_pi by linarith
  have v2: "orientation_fn_v2 AO TA \<le> orientation_fn_v2 AO (pi / 2)"
    using m unfolding orientation_fn_v2_def TA_term_at_half_pi by linarith
  show "(v = ''v0'' \<or> v = ''v2'') \<and> 0 \<le> AO \<and> AO \<le> pi \<and> 0 \<le> TA \<and> TA \<le> pi \<longrightarrow>
     (case get_orientation_function v of
        Inl err \<Rightarrow> False
      | Inr f \<Rightarrow> f AO TA \<le> f AO (pi / 2))"
    using v0 v2 by (auto simp: get_orientation_function_def)
  show "get_orientation_function ''v1'' = Inr orientation_fn_v1"
    by (simp add: get_orientation_function_def)
  show "0 \<le> AO \<and> AO \<le> pi \<and> pi / 2 \<le> TA \<and> TA \<le> pi \<longrightarrow>
        orientation_fn_v1 AO TA \<le> orientation_fn_v1 AO (pi / 2)"
    using orientation_v1_above_half_pi by blast
  show "0 \<le> AO \<and> AO \<le> pi \<and> 0 \<le> TA \<and> TA < pi / 2 \<longrightarrow>
        orientation_fn_v1 AO (pi / 2) < orientation_fn_v1 AO TA"
    using orientation_v1_below_half_pi by blast
qed

theorem orientation_TA_only_penalizes_witness:
  "(0::real) \<le> pi / 3 \<and> pi / 3 \<le> pi \<and> (0::real) \<le> pi / 4 \<and> pi / 4 \<le> pi
   \<and> orientation_fn_v2 (pi / 3) (pi / 4) \<le> orientation_fn_v2 (pi / 3) (pi / 2)
   \<and> orientation_fn_v0 (pi / 3) (pi / 4) \<le> orientation_fn_v0 (pi / 3) (pi / 2)
   \<and> pi / 2 \<le> 3 * pi / 4 \<and> 3 * pi / 4 \<le> pi
   \<and> orientation_fn_v1 (pi / 3) (3 * pi / 4) \<le> orientation_fn_v1 (pi / 3) (pi / 2)
   \<and> pi / 4 < pi / 2
   \<and> orientation_fn_v1 (pi / 3) (pi / 2) < orientation_fn_v1 (pi / 3) (pi / 4)"
  using orientation_TA_only_penalizes [of "''v2''" "pi / 3" "pi / 4"]
    orientation_TA_only_penalizes [of "''v0''" "pi / 3" "pi / 4"]
    orientation_TA_only_penalizes [of "''v0''" "pi / 3" "3 * pi / 4"]
  by (simp add: get_orientation_function_def)

subsection \<open>Version tags\<close>

lemma get_orientation_function_unknown:
  assumes "ov \<notin> {''v0'', ''v1'', ''v2''}"
  shows "get_orientation_function ov =
           Inl (NotImplementedError (''Unknown orientation function version: '' @ ov))"
  using assms by (simp add: get_orientation_function_def)

lemma get_range_funtion_unknown:
  assumes "rv \<notin> {''v0'', ''v1'', ''v2''}"
  shows "get_range_funtion td rv =
           Inl (NotImplementedError (''Unknown range function version: '' @ rv))"
  using assms by (simp add: get_range_funtion_def)

lemma get_orientation_function_known:
  assumes "ov \<in> {''v0'', ''v1'', ''v2''}"
  shows "\<not> isl (get_orientation_function ov)"
  using assms by (auto simp: get_orientation_function_def)

lemma get_range_funtion_known:
  assumes "rv \<in> {''v0'', ''v1'', ''v2''}"
  shows "\<not> isl (get_range_funtion td rv)"
  using assms by (auto simp: get_range_funtion_def)

text \<open>
  C8. A version tag outside \<open>{v0, v1, v2}\<close> makes \<^const>\<open>get_orientation_function\<close>,
  respectively \<^const>\<open>get_range_funtion\<close>, raise \<^verbatim>\<open>NotImplementedError\<close>, and the
  constructor configured with such a tag raises: whatever the agent count it returns no
  object, and in a two-agent environment the exception is that
  \<^verbatim>\<open>NotImplementedError\<close> (the orientation tag is looked at first). No default is
  substituted for an unknown tag. A recognised tag never makes either function raise, and
  with both tags recognised the constructor returns an object in a two-agent environment.
\<close>

theorem unknown_version_raises:
  "(ov \<notin> {''v0'', ''v1'', ''v2''} \<longrightarrow>
      get_orientation_function ov =
        Inl (NotImplementedError (''Unknown orientation function version: '' @ ov))
      \<and> (PostureReward_orientation_version cfg = Some ov \<longrightarrow>
            PostureReward_init 2 cfg =
              Inl (NotImplementedError (''Unknown orientation function version: '' @ ov))
            \<and> isl (PostureReward_init n cfg)))
   \<and> (rv \<notin> {''v0'', ''v1'', ''v2''} \<longrightarrow>
      get_range_funtion td rv =
        Inl (NotImplementedError (''Unknown range function version: '' @ rv))
      \<and> (PostureReward_range_version cfg = Some rv \<longrightarrow>
            isl (PostureReward_init n cfg)
            \<and> (getattr_default (PostureReward_orientation_version cfg) ''v2''
                  \<in> {''v0'', ''v1'', ''v2''} \<longrightarrow>
                PostureReward_init 2 cfg =
                  Inl (NotImplementedError (''Unknown range function version: '' @ rv)))))
   \<and> (ov \<in> {''v0'', ''v1'', ''v2''} \<longrightarrow> \<not> isl (get_orientation_function ov))
   \<and> (rv \<in> {''v0'', ''v1'', ''v2''} \<longrightarrow> \<not> isl (get_range_funtion td rv))
   \<and> (getattr_default (PostureReward_orientation_version cfg) ''v2'' \<in> {''v0'', ''v1'', ''v2''}
        \<and> getattr_default (PostureReward_range_version cfg) ''v2'' \<in> {''v0'', ''v1'', ''v2''}
        \<longrightarrow> \<not> isl (PostureReward_init 2 cfg))"
proof (intro conjI impI)
  assume u: "ov \<notin> {''v0'', ''v1'', ''v2''}"
  show "get_orientation_function ov =
        Inl (NotImplementedError (''Unknown orientation function version: '' @ ov))"
    by (rule get_orientation_function_unknown [OF u])
  assume c: "PostureReward_orientation_version cfg = Some ov"
  show "PostureReward_init 2 cfg =
              Inl (NotImplementedError (''Unknown orientation function version: '' @ ov))"
    using c by (simp add: PostureReward_init_def getattr_default_def Let_def
        get_orientation_function_unknown [OF u])
  show "isl (PostureReward_init n cfg)"
    using c by (simp add: PostureReward_init_def getattr_default_def Let_def
        get_orientation_function_unknown [OF u])
next
  assume u: "rv \<notin> {''v0'', ''v1'', ''v2''}"
  show "get_range_funtion td rv =
        Inl (NotImplementedError (''Unknown range function version: '' @ rv))"
    by (rule get_range_funtion_unknown [OF u])
  assume c: "PostureReward_range_version cfg = Some rv"
  show "isl (PostureReward_init n cfg)"
    using c by (simp add: PostureReward_init_def getattr_default_def Let_def
        get_range_funtion_unknown [OF u] split: sum.splits)
  assume k: "getattr_default (PostureReward_orientation_version cfg) ''v2''
                  \<in> {''v0'', ''v1'', ''v2''}"
  obtain f where f: "get_orientation_function
      (getattr_default (PostureReward_orientation_version cfg) ''v2'') = Inr f"
    using get_orientation_function_known [OF k]
    by (cases "get_orientation_function
      (getattr_default (PostureReward_orientation_version cfg) ''v2'')") auto
  have rv: "getattr_default (PostureReward_range_version cfg) ''v2'' = rv"
    using c by (simp add: getattr_default_def)
  show "PostureReward_init 2 cfg =
                  Inl (NotImplementedError (''Unknown range function version: '' @ rv))"
    by (simp add: PostureReward_init_def Let_def f rv get_range_funtion_unknown [OF u])
next
  assume "ov \<in> {''v0'', ''v1'', ''v2''}"
  then show "\<not> isl (get_orientation_function ov)"
    by (rule get_orientation_function_known)
next
  assume "rv \<in> {''v0'', ''v1'', ''v2''}"
  then show "\<not> isl (get_range_funtion td rv)"
    by (rule get_range_funtion_known)
next
  assume k: "getattr_default (PostureReward_orientation_version cfg) ''v2'' \<in> {''v0'', ''v1'', ''v2''}
        \<and> getattr_default (PostureReward_range_version cfg) ''v2'' \<in> {''v0'', ''v1'', ''v2''}"
  obtain f where f: "get_orientation_function
      (getattr_default (PostureReward_orientation_version cfg) ''v2'') = Inr f"
    using get_orientation_function_known [of
        "getattr_default (PostureReward_orientation_version cfg) ''v2''"] k
    by (cases "get_orientation_function
      (getattr_default (PostureReward_orientation_version cfg) ''v2'')") auto
  obtain g where g: "get_range_funtion (getattr_default (PostureReward_target_dist cfg) 3)
      (getattr_default (PostureReward_range_version cfg) ''v2'') = Inr g"
    using get_range_funtion_known [of
        "getattr_default (PostureReward_range_version cfg) ''v2''"
        "getattr_default (PostureReward_target_dist cfg) 3"] k
    by (cases "get_range_funtion (getattr_default (PostureReward_target_dist cfg) 3)
      (getattr_default (PostureReward_range_version cfg) ''v2'')") auto
  show "\<not> isl (PostureReward_init 2 cfg)"
    by (simp add: PostureReward_init_def Let_def f g)
qed

theorem unknown_version_raises_witness:
  "''v3'' \<notin> {''v0'', ''v1'', ''v2''}
   \<and> PostureReward_init 2 (default_config \<lparr> PostureReward_orientation_version := Some ''v3'' \<rparr>)
       = Inl (NotImplementedError ''Unknown orientation function version: v3'')
   \<and> PostureReward_init 2 (default_config \<lparr> PostureReward_range_version := Some ''v3'' \<rparr>)
       = Inl (NotImplementedError ''Unknown range function version: v3'')
   \<and> ''v1'' \<in> {''v0'', ''v1'', ''v2''}
   \<and> \<not> isl (get_orientation_function ''v1'')
   \<and> \<not> isl (get_range_funtion 3 ''v1'')
   \<and> \<not> isl (PostureReward_init 2 default_config)"
  using unknown_version_raises [of "''v3''"
      "default_config \<lparr> PostureReward_orientation_version := Some ''v3'' \<rparr>" 2 "''v3''" 3]
    unknown_version_raises [of "''v1''"
      "default_config \<lparr> PostureReward_range_version := Some ''v3'' \<rparr>" 2 "''v3''" 3]
    unknown_version_raises [of "''v1''" default_config 2 "''v1''" 3]
  by (simp add: default_config_def getattr_default_def)

section \<open>The action mapping\<close>

text \<open>One row of \<^const>\<open>normalize_action\<close> for the task's level counts 41, 41, 41 and 30.\<close>

lemma act_normalize_row:
  assumes "agent_id < length actions" and "actions ! agent_id = [a0, a1, a2, a3]"
  shows "act_normalize default_task actions agent_id =
           Inr [real_of_int a0 * 2 / 40 - 1, real_of_int a1 * 2 / 40 - 1,
                real_of_int a2 * 2 / 40 - 1, real_of_int a3 * (1 / 2) / 29 + 2 / 5]"
  using assms by (simp add: act_normalize_def py_index_def default_task_def)

lemma normalize_action_rows:
  "normalize_action default_task e [[a0, a1, a2, a3], [b0, b1, b2, b3]] =
           Inr [[real_of_int a0 * 2 / 40 - 1, real_of_int a1 * 2 / 40 - 1,
                 real_of_int a2 * 2 / 40 - 1, real_of_int a3 * (1 / 2) / 29 + 2 / 5],
                [real_of_int b0 * 2 / 40 - 1, real_of_int b1 * 2 / 40 - 1,
                 real_of_int b2 * 2 / 40 - 1, real_of_int b3 * (1 / 2) / 29 + 2 / 5]]"
proof -
  have n: "task_num_agents default_task = 2"
    by (simp add: default_task_def)
  have r0: "act_normalize default_task [[a0, a1, a2, a3], [b0, b1, b2, b3]] 0 =
      Inr [real_of_int a0 * 2 / 40 - 1, real_of_int a1 * 2 / 40 - 1,
           real_of_int a2 * 2 / 40 - 1, real_of_int a3 * (1 / 2) / 29 + 2 / 5]"
    by (rule act_normalize_row) simp_all
  have r1: "act_normalize default_task [[a0, a1, a2, a3], [b0, b1, b2, b3]] (Suc 0) =
      Inr [real_of_int b0 * 2 / 40 - 1, real_of_int b1 * 2 / 40 - 1,
           real_of_int b2 * 2 / 40 - 1, real_of_int b3 * (1 / 2) / 29 + 2 / 5]"
    by (rule act_normalize_row) simp_all
  show ?thesis
    unfolding normalize_action_def n upt_0_2 by (simp add: r0 r1)
qed

text \<open>The specification's linear rule at the two grids, and its inverse.\<close>

lemma dequantize_aileron: "dequantize_spec 41 (- 1) 1 i = real_of_int i * 2 / 40 - 1"
  by (simp add: dequantize_spec_def)

lemma dequantize_throttle:
  "dequantize_spec 30 (2 / 5) (9 / 10) i = real_of_int i * (1 / 2) / 29 + 2 / 5"
  by (simp add: dequantize_spec_def)

lemma quantize_dequantize_aileron:
  "quantize_spec 41 (- 1) 1 (dequantize_spec 41 (- 1) 1 i) = i"
proof -
  have "(dequantize_spec 41 (- 1) 1 i - (- 1)) * (real 41 - 1) / (1 - (- 1)) = real_of_int i"
    by (simp add: dequantize_spec_def)
  then show ?thesis unfolding quantize_spec_def by simp
qed

lemma quantize_dequantize_throttle:
  "quantize_spec 30 (2 / 5) (9 / 10) (dequantize_spec 30 (2 / 5) (9 / 10) i) = i"
proof -
  have "(dequantize_spec 30 (2 / 5) (9 / 10) i - 2 / 5) * (real 30 - 1) / (9 / 10 - 2 / 5)
          = real_of_int i"
    by (simp add: dequantize_spec_def)
  then show ?thesis unfolding quantize_spec_def by simp
qed

lemma normalize_action_dequantize:
  "normalize_action default_task e [[a0, a1, a2, a3], [b0, b1, b2, b3]] =
           Inr [[dequantize_spec 41 (- 1) 1 a0, dequantize_spec 41 (- 1) 1 a1,
                 dequantize_spec 41 (- 1) 1 a2, dequantize_spec 30 (2 / 5) (9 / 10) a3],
                [dequantize_spec 41 (- 1) 1 b0, dequantize_spec 41 (- 1) 1 b1,
                 dequantize_spec 41 (- 1) 1 b2, dequantize_spec 30 (2 / 5) (9 / 10) b3]]"
  unfolding normalize_action_rows dequantize_aileron dequantize_throttle ..

text \<open>
  C7. \<^const>\<open>normalize_action\<close> maps each discrete index by the linear rule
  \<open>index * (hi - lo) / (N - 1) + lo\<close>, with \<open>(N, lo, hi) = (41, -1, 1)\<close> for aileron,
  elevator and rudder and \<open>(30, 0.4, 0.9)\<close> for throttle. The endpoints map exactly: index
  \<open>0\<close> to \<open>lo\<close> and index \<open>N - 1\<close> to \<open>hi\<close>. For every index in \<open>[0, N - 1]\<close> the inverse
  quantisation of the value recovers the index.
\<close>

theorem normalize_action_linear_roundtrip:
  assumes "SingleCombatTask_init cfg = Inr self"
  shows "normalize_action self e [[a0, a1, a2, a3], [b0, b1, b2, b3]] =
           Inr [[dequantize_spec 41 (- 1) 1 a0, dequantize_spec 41 (- 1) 1 a1,
                 dequantize_spec 41 (- 1) 1 a2, dequantize_spec 30 (2 / 5) (9 / 10) a3],
                [dequantize_spec 41 (- 1) 1 b0, dequantize_spec 41 (- 1) 1 b1,
                 dequantize_spec 41 (- 1) 1 b2, dequantize_spec 30 (2 / 5) (9 / 10) b3]]
       \<and> normalize_action self e [[0, 0, 0, 0], [40, 40, 40, 29]] =
           Inr [[- 1, - 1, - 1, 2 / 5], [1, 1, 1, 9 / 10]]
       \<and> (0 \<le> i \<and> i \<le> 40 \<and> 0 \<le> j \<and> j \<le> 29 \<longrightarrow>
            (case normalize_action self e [[i, i, i, j], [i, i, i, j]] of
               Inl err \<Rightarrow> False
             | Inr rows \<Rightarrow>
                 rows \<noteq> [] \<and>
                 (\<forall>row \<in> set rows.
                    quantize_spec 41 (- 1) 1 (row ! 0) = i
                    \<and> quantize_spec 41 (- 1) 1 (row ! 1) = i
                    \<and> quantize_spec 41 (- 1) 1 (row ! 2) = i
                    \<and> quantize_spec 30 (2 / 5) (9 / 10) (row ! 3) = j)))"
proof (intro conjI)
  have self: "self = default_task"
    by (rule SingleCombatTask_init_Inr [OF assms])
  show "normalize_action self e [[a0, a1, a2, a3], [b0, b1, b2, b3]] =
           Inr [[dequantize_spec 41 (- 1) 1 a0, dequantize_spec 41 (- 1) 1 a1,
                 dequantize_spec 41 (- 1) 1 a2, dequantize_spec 30 (2 / 5) (9 / 10) a3],
                [dequantize_spec 41 (- 1) 1 b0, dequantize_spec 41 (- 1) 1 b1,
                 dequantize_spec 41 (- 1) 1 b2, dequantize_spec 30 (2 / 5) (9 / 10) b3]]"
    unfolding self by (rule normalize_action_dequantize)
  show "normalize_action self e [[0, 0, 0, 0], [40, 40, 40, 29]] =
           Inr [[- 1, - 1, - 1, 2 / 5], [1, 1, 1, 9 / 10]]"
    unfolding self normalize_action_rows by simp
  show "0 \<le> i \<and> i \<le> 40 \<and> 0 \<le> j \<and> j \<le> 29 \<longrightarrow>
            (case normalize_action self e [[i, i, i, j], [i, i, i, j]] of
               Inl err \<Rightarrow> False
             | Inr rows \<Rightarrow>
                 rows \<noteq> [] \<and>
                 (\<forall>row \<in> set rows.
                    quantize_spec 41 (- 1) 1 (row ! 0) = i
                    \<and> quantize_spec 41 (- 1) 1 (row ! 1) = i
                    \<and> quantize_spec 41 (- 1) 1 (row ! 2) = i
                    \<and> quantize_spec 30 (2 / 5) (9 / 10) (row ! 3) = j))"
    unfolding self normalize_action_dequantize
    by (simp add: quantize_dequantize_aileron quantize_dequantize_throttle)
qed

theorem normalize_action_linear_roundtrip_witness:
  "SingleCombatTask_init default_config = Inr default_task
   \<and> normalize_action default_task sample_env [[0, 0, 0, 0], [40, 40, 40, 29]]
       = Inr [[- 1, - 1, - 1, 2 / 5], [1, 1, 1, 9 / 10]]
   \<and> (0::int) \<le> 17 \<and> (17::int) \<le> 40 \<and> (0::int) \<le> 5 \<and> (5::int) \<le> 29
   \<and> (case normalize_action default_task sample_env [[17, 17, 17, 5], [17, 17, 17, 5]] of
         Inl err \<Rightarrow> False
       | Inr rows \<Rightarrow>
           rows \<noteq> [] \<and>
           (\<forall>row \<in> set rows.
              quantize_spec 41 (- 1) 1 (row ! 0) = 17
              \<and> quantize_spec 41 (- 1) 1 (row ! 1) = 17
              \<and> quantize_spec 41 (- 1) 1 (row ! 2) = 17
              \<and> quantize_spec 30 (2 / 5) (9 / 10) (row ! 3) = 5))"
proof -
  have h: "(0::int) \<le> 17 \<and> (17::int) \<le> 40 \<and> (0::int) \<le> 5 \<and> (5::int) \<le> 29"
    by simp
  note t = normalize_action_linear_roundtrip [OF SingleCombatTask_init_default,
      where e = sample_env and i = 17 and j = 5]
  have ends: "normalize_action default_task sample_env [[0, 0, 0, 0], [40, 40, 40, 29]]
       = Inr [[- 1, - 1, - 1, 2 / 5], [1, 1, 1, 9 / 10]]"
    by (rule t [THEN conjunct2, THEN conjunct1])
  have trip: "case normalize_action default_task sample_env [[17, 17, 17, 5], [17, 17, 17, 5]] of
         Inl err \<Rightarrow> False
       | Inr rows \<Rightarrow>
           rows \<noteq> [] \<and>
           (\<forall>row \<in> set rows.
              quantize_spec 41 (- 1) 1 (row ! 0) = 17
              \<and> quantize_spec 41 (- 1) 1 (row ! 1) = 17
              \<and> quantize_spec 41 (- 1) 1 (row ! 2) = 17
              \<and> quantize_spec 30 (2 / 5) (9 / 10) (row ! 3) = 5)"
    by (rule t [THEN conjunct2, THEN conjunct2, THEN mp, OF h])
  show ?thesis
    using SingleCombatTask_init_default ends h trip by blast
qed

text \<open>
  C10. \<^const>\<open>normalize_action\<close> does not test the indices against the level counts: for
  any integers whatever it raises nothing and returns the values of the same linear
  formula, which for an index outside \<open>[0, N - 1]\<close> lie outside the control range.
  Aileron index \<open>50\<close> gives \<open>1.5\<close>, and throttle index \<open>-1\<close> gives \<open>0.4 - 1/58\<close>, below \<open>0.4\<close>.
\<close>

theorem normalize_action_no_bounds_check:
  assumes "SingleCombatTask_init cfg = Inr self"
  shows "normalize_action self e [[a0, a1, a2, a3], [b0, b1, b2, b3]] =
           Inr [[real_of_int a0 * 2 / 40 - 1, real_of_int a1 * 2 / 40 - 1,
                 real_of_int a2 * 2 / 40 - 1, real_of_int a3 * (1 / 2) / 29 + 2 / 5],
                [real_of_int b0 * 2 / 40 - 1, real_of_int b1 * 2 / 40 - 1,
                 real_of_int b2 * 2 / 40 - 1, real_of_int b3 * (1 / 2) / 29 + 2 / 5]]
       \<and> (40 < a0 \<longrightarrow> 1 < real_of_int a0 * 2 / 40 - 1)
       \<and> (a0 < 0 \<longrightarrow> real_of_int a0 * 2 / 40 - 1 < - 1)
       \<and> (29 < a3 \<longrightarrow> 9 / 10 < real_of_int a3 * (1 / 2) / 29 + 2 / 5)
       \<and> (a3 < 0 \<longrightarrow> real_of_int a3 * (1 / 2) / 29 + 2 / 5 < 2 / 5)
       \<and> normalize_action self e [[50, 0, 0, - 1], [0, 0, 0, 0]] =
           Inr [[3 / 2, - 1, - 1, 2 / 5 - 1 / 58], [- 1, - 1, - 1, 2 / 5]]"
proof -
  have self: "self = default_task"
    by (rule SingleCombatTask_init_Inr [OF assms])
  have "normalize_action self e [[50, 0, 0, - 1], [0, 0, 0, 0]] =
           Inr [[3 / 2, - 1, - 1, 2 / 5 - 1 / 58], [- 1, - 1, - 1, 2 / 5]]"
    unfolding self normalize_action_rows by simp
  moreover have "normalize_action self e [[a0, a1, a2, a3], [b0, b1, b2, b3]] =
           Inr [[real_of_int a0 * 2 / 40 - 1, real_of_int a1 * 2 / 40 - 1,
                 real_of_int a2 * 2 / 40 - 1, real_of_int a3 * (1 / 2) / 29 + 2 / 5],
                [real_of_int b0 * 2 / 40 - 1, real_of_int b1 * 2 / 40 - 1,
                 real_of_int b2 * 2 / 40 - 1, real_of_int b3 * (1 / 2) / 29 + 2 / 5]]"
    unfolding self by (rule normalize_action_rows)
  moreover have "40 < a0 \<longrightarrow> 1 < real_of_int a0 * 2 / 40 - 1" by auto
  moreover have "a0 < 0 \<longrightarrow> real_of_int a0 * 2 / 40 - 1 < - 1" by auto
  moreover have "29 < a3 \<longrightarrow> 9 / 10 < real_of_int a3 * (1 / 2) / 29 + 2 / 5" by auto
  moreover have "a3 < 0 \<longrightarrow> real_of_int a3 * (1 / 2) / 29 + 2 / 5 < 2 / 5" by auto
  ultimately show ?thesis by blast
qed

theorem normalize_action_no_bounds_check_witness:
  "SingleCombatTask_init default_config = Inr default_task
   \<and> (40::int) < 50 \<and> (- 1::int) < 0
   \<and> normalize_action default_task sample_env [[50, 0, 0, - 1], [0, 0, 0, 0]] =
           Inr [[3 / 2, - 1, - 1, 2 / 5 - 1 / 58], [- 1, - 1, - 1, 2 / 5]]
   \<and> (1::real) < 3 / 2 \<and> (2 / 5 - 1 / 58 :: real) < 2 / 5"
proof -
  note t = normalize_action_no_bounds_check [OF SingleCombatTask_init_default,
      where e = sample_env and ?a0.0 = 50 and ?a3.0 = "- 1"]
  have "normalize_action default_task sample_env [[50, 0, 0, - 1], [0, 0, 0, 0]] =
           Inr [[3 / 2, - 1, - 1, 2 / 5 - 1 / 58], [- 1, - 1, - 1, 2 / 5]]"
    using t by blast
  moreover have "(1::real) < 3 / 2 \<and> (2 / 5 - 1 / 58 :: real) < 2 / 5"
    using t by simp
  ultimately show ?thesis
    using SingleCombatTask_init_default by simp
qed

section \<open>The observation vector\<close>

text \<open>
  With two aircraft and thirteen readings each, \<^verbatim>\<open>_normalize\<close> raises nothing; its
  eighteen entries, by position.
\<close>

lemma obs_normalize_row:
  assumes "agent_id < 2" and "length observations = 2"
    and "12 < length (observations ! agent_id)"
    and "12 < length (observations ! ((agent_id + 1) mod 2))"
  shows "obs_normalize L G default_task e observations agent_id =
           Inr [observations ! agent_id ! 2 * (38 / 125) / 5000,
                linalg_norm (drop 3 (raw_feature L e (observations ! agent_id))),
                observations ! agent_id ! 8,
                sin (observations ! agent_id ! 3),
                cos (observations ! agent_id ! 3),
                sin (observations ! agent_id ! 4),
                cos (observations ! agent_id ! 4),
                observations ! agent_id ! 9 * (38 / 125) / 340,
                observations ! agent_id ! 10,
                observations ! agent_id ! 11,
                observations ! agent_id ! 12,
                fst (snd (snd (G (raw_feature L e (observations ! agent_id))
                     (raw_feature L e (observations ! ((agent_id + 1) mod 2)))))) / 10,
                fst (G (raw_feature L e (observations ! agent_id))
                     (raw_feature L e (observations ! ((agent_id + 1) mod 2)))),
                fst (snd (G (raw_feature L e (observations ! agent_id))
                     (raw_feature L e (observations ! ((agent_id + 1) mod 2))))),
                snd (snd (snd (G (raw_feature L e (observations ! agent_id))
                     (raw_feature L e (observations ! ((agent_id + 1) mod 2)))))),
                observations ! ((agent_id + 1) mod 2) ! 2 * (38 / 125) / 5000,
                linalg_norm (drop 3 (raw_feature L e (observations ! ((agent_id + 1) mod 2)))),
                observations ! ((agent_id + 1) mod 2) ! 8]"
proof -
  have "(agent_id + 1) mod 2 < 2" by simp
  with assms show ?thesis
    by (simp add: obs_normalize_def py_index_def Let_def case_prod_beta raw_feature_def
        default_task_def)
qed

text \<open>The range of the specification's geometry does not depend on who is the ego.\<close>

lemma linalg_norm_diff_sym:
  "linalg_norm (map2 (-) [b0, b1, b2] [a0, a1, a2]) = linalg_norm (map2 (-) [a0, a1, a2] [b0, b1, b2])"
proof -
  have "(b0 - a0) * (b0 - a0) = (a0 - b0) * (a0 - b0)"
    and "(b1 - a1) * (b1 - a1) = (a1 - b1) * (a1 - b1)"
    and "(b2 - a2) * (b2 - a2) = (a2 - b2) * (a2 - b2)"
    by algebra+
  then show ?thesis by (simp add: linalg_norm_def)
qed

lemma raw_feature_take3:
  "take 3 (raw_feature L e obs) =
     [raw_feature L e obs ! 0, raw_feature L e obs ! 1, raw_feature L e obs ! 2]"
  by (simp add: raw_feature_def)

lemma spec_range_sym:
  "fst (snd (snd (get_AO_TA_R_spec eps (raw_feature L e o0) (raw_feature L e o1))))
     = fst (snd (snd (get_AO_TA_R_spec eps (raw_feature L e o1) (raw_feature L e o0))))"
  unfolding get_AO_TA_R_spec_def Let_def raw_feature_take3
  by (simp only: fst_conv snd_conv linalg_norm_diff_sym)

text \<open>
  C6. For the same pair of raw agent states, \<^const>\<open>normalize_observation\<close> is symmetric
  under exchanging the agents: the ego altitude, speed and vertical-speed entries of agent
  0 (positions 0, 1, 2) equal the enemy entries of agent 1 (positions 15, 16, 17) and the
  other way round, and the relative-distance entry (position 11) is the same for both.
  The first part holds for any geometry helper; the distance is that of
  \<^const>\<open>get_AO_TA_R_spec\<close>, which follows the specification.
\<close>

theorem normalize_observation_swap_symmetric:
  assumes "SingleCombatTask_init cfg = Inr self"
    and "12 < length o0" and "12 < length o1"
  shows "case normalize_observation L (get_AO_TA_R_spec eps) self e [o0, o1] of
           Inl err \<Rightarrow> False
         | Inr rows \<Rightarrow>
             length rows = 2
             \<and> rows ! 0 ! 0 = rows ! 1 ! 15 \<and> rows ! 0 ! 1 = rows ! 1 ! 16
             \<and> rows ! 0 ! 2 = rows ! 1 ! 17
             \<and> rows ! 1 ! 0 = rows ! 0 ! 15 \<and> rows ! 1 ! 1 = rows ! 0 ! 16
             \<and> rows ! 1 ! 2 = rows ! 0 ! 17
             \<and> rows ! 0 ! 11 = rows ! 1 ! 11"
proof -
  have self: "self = default_task"
    by (rule SingleCombatTask_init_Inr [OF assms(1)])
  have n: "task_num_agents default_task = 2"
    by (simp add: default_task_def)
  note r0 = obs_normalize_row [where agent_id = 0 and observations = "[o0, o1]"
      and G = "get_AO_TA_R_spec eps" and L = L and e = e, simplified, OF assms(2,3)]
  note r1 = obs_normalize_row [where agent_id = "Suc 0" and observations = "[o0, o1]"
      and G = "get_AO_TA_R_spec eps" and L = L and e = e, simplified, OF assms(3,2)]
  show ?thesis
    unfolding self normalize_observation_def n upt_0_2
    by (simp add: r0 r1 spec_range_sym)
qed

theorem normalize_observation_swap_symmetric_witness:
  "SingleCombatTask_init default_config = Inr default_task
   \<and> 12 < length (sample_observations ! 0) \<and> 12 < length (sample_observations ! 1)
   \<and> (case normalize_observation flat_lonlat2dis (get_AO_TA_R_spec (1 / 100000000))
             default_task sample_env
             [sample_observations ! 0, sample_observations ! 1] of
         Inl err \<Rightarrow> False
       | Inr rows \<Rightarrow>
             length rows = 2
             \<and> rows ! 0 ! 0 = rows ! 1 ! 15 \<and> rows ! 0 ! 1 = rows ! 1 ! 16
             \<and> rows ! 0 ! 2 = rows ! 1 ! 17
             \<and> rows ! 1 ! 0 = rows ! 0 ! 15 \<and> rows ! 1 ! 1 = rows ! 0 ! 16
             \<and> rows ! 1 ! 2 = rows ! 0 ! 17
             \<and> rows ! 0 ! 11 = rows ! 1 ! 11)"
proof -
  have l0: "12 < length (sample_observations ! 0)"
    by (simp add: sample_observations_def)
  have l1: "12 < length (sample_observations ! 1)"
    by (simp add: sample_observations_def)
  show ?thesis
    using normalize_observation_swap_symmetric [OF SingleCombatTask_init_default l0 l1,
        of flat_lonlat2dis "1 / 100000000" sample_env]
      SingleCombatTask_init_default l0 l1
    by blast
qed

text \<open>
  C5. The vertical-speed entries (positions 2 and 17) are the raw down velocities in feet
  per second, although the source's comment gives their unit as Mach numbers and the
  feature built a few lines above scales the same reading by \<open>0.304 / 340\<close>. For the
  reference encounter, whatever the two helpers return, the first aircraft's descent of
  100 ft/s is reported as \<open>100\<close> and the second's climb of 50 ft/s as \<open>-50\<close>, both far
  outside \<open>[-10, 10]\<close>; the scaled reading of the first is \<open>38/425\<close>, about \<open>0.09\<close>.
\<close>

theorem normalize_observation_vertical_speed_raw:
  "case normalize_observation L G default_task e sample_observations of
     Inl err \<Rightarrow> False
   | Inr rows \<Rightarrow>
       rows ! 0 ! 2 = 100 \<and> rows ! 1 ! 17 = 100
       \<and> rows ! 1 ! 2 = - 50 \<and> rows ! 0 ! 17 = - 50
       \<and> \<not> rows ! 0 ! 2 \<le> 10 \<and> \<not> - 10 \<le> rows ! 1 ! 2
       \<and> raw_feature L e (sample_observations ! 0) ! 5 = 38 / 425"
proof -
  have n: "task_num_agents default_task = 2"
    by (simp add: default_task_def)
  note r0 = obs_normalize_row [where agent_id = 0 and observations = sample_observations
      and G = G and L = L and e = e]
  note r1 = obs_normalize_row [where agent_id = "Suc 0" and observations = sample_observations
      and G = G and L = L and e = e]
  have r0': "\<exists>row. obs_normalize L G default_task e sample_observations 0 = Inr row
      \<and> row ! 2 = 100 \<and> row ! 17 = - 50"
    by (subst r0) (simp_all add: sample_observations_def)
  have r1': "\<exists>row. obs_normalize L G default_task e sample_observations (Suc 0) = Inr row
      \<and> row ! 2 = - 50 \<and> row ! 17 = 100"
    by (subst r1) (simp_all add: sample_observations_def)
  have f: "raw_feature L e (sample_observations ! 0) ! 5 = 38 / 425"
    by (simp add: raw_feature_def sample_observations_def)
  from r0' r1' f show ?thesis
    unfolding normalize_observation_def n upt_0_2
    by auto
qed

end
